theory Spec2Isabelle
  imports Main
begin

section \<open>The download-event relay of the browser extension (background.js)\<close>

text \<open>
  The extension registers two listeners with the browser and relays what they observe to
  a local companion process through \<^verbatim>\<open>sendToCleanMaster\<close>. The model below follows
  \<^verbatim>\<open>src/browser_extension/background.js\<close> line by line.

  A JavaScript string is a \<^typ>\<open>string\<close>: the bytes of its UTF-8 encoding, which is also
  what \<^verbatim>\<open>fetch\<close> puts on the wire for a string body. The separator \<^verbatim>\<open>/\<close>, the
  characters that JSON escapes and the two classification tags are ASCII, and an ASCII
  byte never occurs inside the encoding of another character, so splitting, comparing and
  quoting byte by byte agree with the same operations on JavaScript's code units.
\<close>

subsection \<open>JavaScript values and the string operations of line 30\<close>

text \<open>
  The values the program handles: strings, and \<^verbatim>\<open>undefined\<close> (what \<^verbatim>\<open>pop\<close> gives on
  an empty array, and what a function without \<^verbatim>\<open>return\<close> gives back).
\<close>

datatype js_value = JUndefined | JStr string

text \<open>
  \<^verbatim>\<open>String.prototype.split\<close> with a separator of one character: the pieces between the
  occurrences of the separator, in order. The empty string gives one empty piece.
\<close>

fun split :: "string \<Rightarrow> char \<Rightarrow> string list" where
  "split [] sep = [[]]"
| "split (c # cs) sep =
     (if c = sep then [] # split cs sep
      else (case split cs sep of
              [] \<Rightarrow> [[c]]
            | piece # pieces \<Rightarrow> (c # piece) # pieces))"

text \<open>
  \<^verbatim>\<open>Array.prototype.pop\<close>, as far as its result goes: the last element, or
  \<^verbatim>\<open>undefined\<close> when the array is empty.
\<close>

fun pop :: "string list \<Rightarrow> js_value" where
  "pop [] = JUndefined"
| "pop [x] = JStr x"
| "pop (x # y # ys) = pop (y # ys)"

text \<open>Line 30: \<^verbatim>\<open>const filename = url.split('/').pop();\<close>\<close>

definition extract_filename :: "string \<Rightarrow> js_value" where
  "extract_filename url = pop (split url CHR ''/'')"

text \<open>
  The spec's wording of the same step (section 4.2), for comparison with the code: the
  substring of \<^verbatim>\<open>url\<close> following the last path delimiter.
\<close>

definition substring_after_last_delimiter :: "string \<Rightarrow> string" where
  "substring_after_last_delimiter url = rev (takeWhile (\<lambda>c. c \<noteq> CHR ''/'') (rev url))"

subsection \<open>\<^verbatim>\<open>JSON.stringify\<close> of an object literal with string properties\<close>

definition hex_digit :: "nat \<Rightarrow> char" where
  "hex_digit n = ''0123456789abcdef'' ! (n mod 16)"

text \<open>\<^verbatim>\<open>\uXXXX\<close> for a character below 0x20 (ECMAScript \<^verbatim>\<open>UnicodeEscape\<close>).\<close>

definition UnicodeEscape :: "char \<Rightarrow> string" where
  "UnicodeEscape c =
     [CHR 0x5C, CHR ''u'', CHR ''0'', CHR ''0'',
      hex_digit (of_char c div 16), hex_digit (of_char c mod 16)]"

text \<open>
  One character inside a JSON string (ECMAScript \<^verbatim>\<open>QuoteJSONString\<close>): the short
  escapes, \<^verbatim>\<open>\u00XX\<close> for the other control characters, everything else as it is.
\<close>

definition escape_char :: "char \<Rightarrow> string" where
  "escape_char c =
     (if c = CHR 0x08 then [CHR 0x5C, CHR ''b'']
      else if c = CHR 0x09 then [CHR 0x5C, CHR ''t'']
      else if c = CHR 0x0A then [CHR 0x5C, CHR ''n'']
      else if c = CHR 0x0C then [CHR 0x5C, CHR ''f'']
      else if c = CHR 0x0D then [CHR 0x5C, CHR ''r'']
      else if c = CHR 0x22 then [CHR 0x5C, CHR 0x22]
      else if c = CHR 0x5C then [CHR 0x5C, CHR 0x5C]
      else if (of_char c :: nat) < 0x20 then UnicodeEscape c
      else [c])"

definition QuoteJSONString :: "string \<Rightarrow> string" where
  "QuoteJSONString s = [CHR 0x22] @ concat (map escape_char s) @ [CHR 0x22]"

text \<open>A property whose value is \<^verbatim>\<open>undefined\<close> is left out of the JSON text.\<close>

fun SerializeJSONProperty :: "string \<times> js_value \<Rightarrow> string option" where
  "SerializeJSONProperty (key, JUndefined) = None"
| "SerializeJSONProperty (key, JStr s) = Some (QuoteJSONString key @ '':'' @ QuoteJSONString s)"

text \<open>\<^verbatim>\<open>Array.prototype.join\<close>.\<close>

fun join :: "string list \<Rightarrow> string \<Rightarrow> string" where
  "join [] sep = []"
| "join [x] sep = x"
| "join (x # y # ys) sep = x @ sep @ join (y # ys) sep"

text \<open>An object literal is the list of its properties, in the order they are written.\<close>

type_synonym js_object = "(string \<times> js_value) list"

definition JSON_stringify :: "js_object \<Rightarrow> string" where
  "JSON_stringify obj = ''{'' @ join (List.map_filter SerializeJSONProperty obj) '','' @ ''}''"

subsection \<open>The host: events, the network, the console\<close>

text \<open>
  The part of \<^verbatim>\<open>webRequest\<close>'s \<^verbatim>\<open>details\<close> that the listener reads. Both events
  have a \<^verbatim>\<open>url\<close>, so the fields carry the name of their record.
\<close>

record details =
  details_type :: string
  details_url :: string

text \<open>The part of \<^verbatim>\<open>downloads.DownloadItem\<close> that the listener reads.\<close>

record downloadItem =
  downloadItem_url :: string
  downloadItem_filename :: string

text \<open>The second argument of \<^verbatim>\<open>fetch\<close> as the program writes it.\<close>

record request_init =
  http_method :: string
  headers :: "(string \<times> string) list"
  body :: string

text \<open>
  A \<^verbatim>\<open>Response\<close> with its status; \<^verbatim>\<open>response.ok\<close> is true for a status from 200 to
  299 (Fetch standard).
\<close>

record response =
  status :: nat

definition ok :: "response \<Rightarrow> bool" where
  "ok r \<longleftrightarrow> 200 \<le> status r \<and> status r \<le> 299"

text \<open>A thrown value, or the reason of a rejected promise.\<close>

datatype js_error = JsError string

text \<open>
  What awaiting the promise of \<^verbatim>\<open>fetch\<close> gives: a response, whatever its status, or
  a rejection when the request could not be completed. The network decides, so it is a
  parameter of the model.
\<close>

datatype fetch_outcome = Resolves response | Rejects js_error

type_synonym network = "string \<Rightarrow> request_init \<Rightarrow> fetch_outcome"

datatype console_arg = Text string | ErrorObject js_error

text \<open>
  What a run of the program does to the world, in order: a request sent with
  \<^verbatim>\<open>fetch\<close>, a line on \<^verbatim>\<open>console.error\<close>, a call of the \<^verbatim>\<open>suggest\<close> callback with
  an overriding file name or without one, and a promise that was rejected with nobody
  waiting for it.
\<close>

datatype effect =
    Fetch string request_init
  | ConsoleError "console_arg list"
  | SuggestCalled "string option"
  | UnhandledRejection js_error

text \<open>
  A computation either completes with a value or throws, and performs effects on the
  way. For the body of an \<^verbatim>\<open>async\<close> function, completing means that its promise is
  fulfilled and throwing that it is rejected. The list holds the effects that one call
  causes, in the order in which it causes them, those after an \<^verbatim>\<open>await\<close> included.
  The program keeps no state between events, so every call is described on its own.
\<close>

type_synonym 'a js = "(js_error + 'a) \<times> effect list"

definition return :: "'a \<Rightarrow> 'a js" where
  "return x = (Inr x, [])"

definition bind :: "'a js \<Rightarrow> ('a \<Rightarrow> 'b js) \<Rightarrow> 'b js" where
  "bind m f =
     (case m of
        (Inl e, w) \<Rightarrow> (Inl e, w)
      | (Inr x, w) \<Rightarrow> (case f x of (r, w') \<Rightarrow> (r, w @ w')))"

text \<open>\<^verbatim>\<open>try { m } catch (error) { h error }\<close>\<close>

definition try_catch :: "'a js \<Rightarrow> (js_error \<Rightarrow> 'a js) \<Rightarrow> 'a js" where
  "try_catch m h =
     (case m of
        (Inl e, w) \<Rightarrow> (case h e of (r, w') \<Rightarrow> (r, w @ w'))
      | (Inr x, w) \<Rightarrow> (Inr x, w))"

text \<open>\<^verbatim>\<open>await fetch(resource, init)\<close>: the request goes out; a rejection is thrown.\<close>

definition await_fetch :: "network \<Rightarrow> string \<Rightarrow> request_init \<Rightarrow> response js" where
  "await_fetch net resource init =
     (case net resource init of
        Resolves r \<Rightarrow> (Inr r, [Fetch resource init])
      | Rejects e \<Rightarrow> (Inl e, [Fetch resource init]))"

definition console_error :: "console_arg list \<Rightarrow> js_value js" where
  "console_error args = (Inr JUndefined, [ConsoleError args])"

text \<open>
  Calling an \<^verbatim>\<open>async\<close> function as a statement, without \<^verbatim>\<open>await\<close>: the caller gets
  a promise and drops it. Nothing is thrown to the caller; a rejection of the dropped
  promise is an unhandled rejection.
\<close>

definition call_async :: "'a js \<Rightarrow> js_value js" where
  "call_async m =
     (case m of
        (Inl e, w) \<Rightarrow> (Inr JUndefined, w @ [UnhandledRejection e])
      | (Inr x, w) \<Rightarrow> (Inr JUndefined, w))"

subsection \<open>The program\<close>

text \<open>The text of the two console messages, in UTF-8.\<close>

definition message_prefix :: string where
  "message_prefix =
     [CHR 0xD0, CHR 0x9E, CHR 0xD1, CHR 0x88, CHR 0xD0, CHR 0xB8, CHR 0xD0, CHR 0xB1,
      CHR 0xD0, CHR 0xBA, CHR 0xD0, CHR 0xB0, CHR 0x20, CHR 0xD0, CHR 0xBF, CHR 0xD1,
      CHR 0x80, CHR 0xD0, CHR 0xB8, CHR 0x20, CHR 0xD0, CHR 0xBE, CHR 0xD1, CHR 0x82,
      CHR 0xD0, CHR 0xBF, CHR 0xD1, CHR 0x80, CHR 0xD0, CHR 0xB0, CHR 0xD0, CHR 0xB2,
      CHR 0xD0, CHR 0xBA, CHR 0xD0, CHR 0xB5, CHR 0x20, CHR 0xD0, CHR 0xB2]"

definition message_rejected :: string where
  "message_rejected = message_prefix @ '' CleanMaster''"

definition message_unreachable :: string where
  "message_unreachable = message_prefix @ '' CleanMaster:''"

text \<open>Lines 9 to 13: the object literal given to \<^verbatim>\<open>JSON.stringify\<close>.\<close>

definition notification :: "js_value \<Rightarrow> js_value \<Rightarrow> js_object" where
  "notification url filename =
     [(''type'', JStr ''download''), (''url'', url), (''filename'', filename)]"

text \<open>
  Lines 2 to 22, the body of the \<^verbatim>\<open>async\<close> function: the \<^verbatim>\<open>try\<close> statement, and
  after it the end of the function, which gives \<^verbatim>\<open>undefined\<close>.
\<close>

definition sendToCleanMaster :: "network \<Rightarrow> js_value \<Rightarrow> js_value \<Rightarrow> js_value js" where
  "sendToCleanMaster net url filename =
     bind
       (try_catch
          (bind
             (await_fetch net ''http://localhost:8080''
                \<lparr>http_method = ''POST'',
                 headers = [(''Content-Type'', ''application/json'')],
                 body = JSON_stringify (notification url filename)\<rparr>)
             (\<lambda>response.
                if \<not> ok response then console_error [Text message_rejected]
                else return JUndefined))
          (\<lambda>error. console_error [Text message_unreachable, ErrorObject error]))
       (\<lambda>_. return JUndefined)"

text \<open>
  Lines 26 to 35: the listener registered on \<^verbatim>\<open>chrome.webRequest.onBeforeRequest\<close>,
  for all urls and with the \<^verbatim>\<open>blocking\<close> option, so that the host reads what the
  listener returns: a blocking response would cancel or redirect the request,
  \<^verbatim>\<open>undefined\<close> lets it proceed.
\<close>

definition onBeforeRequest_listener :: "network \<Rightarrow> details \<Rightarrow> js_value js" where
  "onBeforeRequest_listener net details =
     (if details_type details = ''xmlhttprequest'' \<or> details_type details = ''main_frame''
      then
        (let url = details_url details;
             filename = extract_filename url
         in bind (call_async (sendToCleanMaster net (JStr url) filename))
              (\<lambda>_. return JUndefined))
      else return JUndefined)"

text \<open>
  Lines 42 to 45: the listener registered on
  \<^verbatim>\<open>chrome.downloads.onDeterminingFilename\<close>. It receives the host's \<^verbatim>\<open>suggest\<close>
  callback as its second argument; the host keeps its own file name unless the listener
  calls \<^verbatim>\<open>suggest\<close> with another one.
\<close>

definition onDeterminingFilename_listener ::
  "network \<Rightarrow> downloadItem \<Rightarrow> (string option \<Rightarrow> js_value js) \<Rightarrow> js_value js" where
  "onDeterminingFilename_listener net downloadItem suggest =
     bind
       (call_async
          (sendToCleanMaster net (JStr (downloadItem_url downloadItem))
             (JStr (downloadItem_filename downloadItem))))
       (\<lambda>_. return JUndefined)"

text \<open>The host's \<^verbatim>\<open>suggest\<close> callback: calling it is an effect.\<close>

definition host_suggest :: "string option \<Rightarrow> js_value js" where
  "host_suggest name = (Inr JUndefined, [SuggestCalled name])"

subsection \<open>Reading a run\<close>

text \<open>The second argument that \<^verbatim>\<open>sendToCleanMaster\<close> gives to \<^verbatim>\<open>fetch\<close> (lines 4 to 14).\<close>

abbreviation relay_init :: "js_value \<Rightarrow> js_value \<Rightarrow> request_init" where
  "relay_init url filename \<equiv>
     \<lparr>http_method = ''POST'',
      headers = [(''Content-Type'', ''application/json'')],
      body = JSON_stringify (notification url filename)\<rparr>"

text \<open>The requests sent during a run, in order.\<close>

fun transmissions :: "effect list \<Rightarrow> (string \<times> request_init) list" where
  "transmissions [] = []"
| "transmissions (Fetch resource init # es) = (resource, init) # transmissions es"
| "transmissions (e # es) = transmissions es"

fun is_suggest_call :: "effect \<Rightarrow> bool" where
  "is_suggest_call (SuggestCalled name) = True"
| "is_suggest_call e = False"

fun is_unhandled_rejection :: "effect \<Rightarrow> bool" where
  "is_unhandled_rejection (UnhandledRejection error) = True"
| "is_unhandled_rejection e = False"

section \<open>Properties of the filename extraction\<close>

lemma split_not_empty: "split s sep \<noteq> []"
  by (induction s) (auto split: list.splits)

lemma pop_last: "xs \<noteq> [] \<Longrightarrow> pop xs = JStr (last xs)"
  by (induction xs rule: pop.induct) auto

lemma split_no_separator: "sep \<notin> set s \<Longrightarrow> split s sep = [s]"
  by (induction s) auto

lemma split_append_separator: "split (p @ sep # q) sep = split p sep @ split q sep"
proof (induction p)
  case Nil
  show ?case by simp
next
  case (Cons c p)
  then show ?case
    using split_not_empty [of p sep]
    by (cases "split p sep") (auto split: list.splits)
qed

lemma extract_filename_after_delimiter:
  "CHR ''/'' \<notin> set q \<Longrightarrow> extract_filename (p @ CHR ''/'' # q) = JStr q"
  unfolding extract_filename_def
  by (simp add: pop_last split_not_empty split_append_separator split_no_separator)

text \<open>
  The code and the spec's wording agree on every string: what \<^verbatim>\<open>split\<close> and \<^verbatim>\<open>pop\<close>
  compute is the substring after the last \<^verbatim>\<open>/\<close>, and the whole string when there is
  no \<^verbatim>\<open>/\<close>.
\<close>

lemma extract_filename_is_last_segment:
  "extract_filename url = JStr (substring_after_last_delimiter url)"
proof (cases "CHR ''/'' \<in> set url")
  case False
  then have "takeWhile (\<lambda>c. c \<noteq> CHR ''/'') (rev url) = rev url"
    by auto
  then have "substring_after_last_delimiter url = url"
    unfolding substring_after_last_delimiter_def by (simp only: rev_rev_ident)
  with False show ?thesis
    by (simp add: extract_filename_def split_no_separator)
next
  case True
  then obtain p q where url: "url = p @ CHR ''/'' # q" and q: "CHR ''/'' \<notin> set q"
    by (auto dest: split_list_last)
  have "takeWhile (\<lambda>c. c \<noteq> CHR ''/'') (rev q @ CHR ''/'' # rev p) = rev q"
    using q by (auto simp: takeWhile_tail)
  then have "substring_after_last_delimiter url = q"
    unfolding substring_after_last_delimiter_def url by simp
  with url q show ?thesis
    by (simp add: extract_filename_after_delimiter)
qed

text \<open>
  C7: the extraction of the request path, applied to
  \<^verbatim>\<open>https://example.com/files/report.pdf\<close>, yields \<^verbatim>\<open>report.pdf\<close>.
\<close>

theorem extract_filename_report_pdf:
  "extract_filename ''https://example.com/files/report.pdf'' = JStr ''report.pdf''"
  by (simp add: extract_filename_def)

text \<open>
  C8: a url with no trailing segment, that is one that ends with the delimiter, yields
  the empty string; \<^verbatim>\<open>https://example.com/\<close> does.
\<close>

theorem extract_filename_trailing_delimiter:
  "extract_filename (prefix @ ''/'') = JStr ''''
   \<and> extract_filename ''https://example.com/'' = JStr ''''"
  using extract_filename_after_delimiter [of "[]" prefix]
    extract_filename_after_delimiter [of "[]" "''https://example.com''"]
  by simp

text \<open>
  C9: for a url without any \<^verbatim>\<open>/\<close>, the extraction returns the whole url, unchanged.
\<close>

theorem extract_filename_without_delimiter:
  "CHR ''/'' \<notin> set url \<Longrightarrow> extract_filename url = JStr url"
  unfolding extract_filename_def by (simp add: split_no_separator)

theorem extract_filename_without_delimiter_witness:
  "CHR ''/'' \<notin> set ''about:blank'' \<and> extract_filename ''about:blank'' = JStr ''about:blank''"
proof -
  have no_delimiter: "CHR ''/'' \<notin> set ''about:blank''"
    by simp
  from extract_filename_without_delimiter [OF no_delimiter] no_delimiter
  show ?thesis by simp
qed

text \<open>
  C10: the extraction splits the raw url string, so a query string or fragment after the
  last \<^verbatim>\<open>/\<close> stays in the file name: \<^verbatim>\<open>https://example.com/report.pdf?x=1\<close> yields
  \<^verbatim>\<open>report.pdf?x=1\<close> and not \<^verbatim>\<open>report.pdf\<close>, and so does every url of that shape.
\<close>

theorem extract_filename_keeps_query:
  "extract_filename ''https://example.com/report.pdf?x=1'' = JStr ''report.pdf?x=1''
   \<and> extract_filename ''https://example.com/report.pdf?x=1'' \<noteq> JStr ''report.pdf''
   \<and> (CHR ''/'' \<notin> set name \<and> CHR ''/'' \<notin> set rest \<longrightarrow>
        extract_filename (base @ ''/'' @ name @ ''?'' @ rest) = JStr (name @ ''?'' @ rest))"
  using extract_filename_after_delimiter [of "name @ ''?'' @ rest" base]
  by (simp add: extract_filename_def)

theorem extract_filename_keeps_query_witness:
  "CHR ''/'' \<notin> set ''report.pdf'' \<and> CHR ''/'' \<notin> set ''x=1#top''
   \<and> extract_filename
       (''https://example.com/files'' @ ''/'' @ ''report.pdf'' @ ''?'' @ ''x=1#top'') =
     JStr (''report.pdf'' @ ''?'' @ ''x=1#top'')"
  using extract_filename_keeps_query
    [of "''report.pdf''" "''x=1#top''" "''https://example.com/files''"]
  by simp

section \<open>Properties of the JSON text\<close>

text \<open>
  Quoting loses nothing: the escapes form a prefix code, and the closing quote of a
  quoted string is the first quote that is not escaped. So a quoted string can be read
  back from the front of any text that starts with it.
\<close>

lemma hex_digit_inject:
  assumes "a < 16" and "b < 16" and "hex_digit a = hex_digit b"
  shows "a = b"
proof -
  have "distinct ''0123456789abcdef''"
    by simp
  moreover have "a < length ''0123456789abcdef''" and "b < length ''0123456789abcdef''"
    using assms by simp_all
  ultimately show ?thesis
    using assms(1,2,3) unfolding hex_digit_def
    by (simp only: nth_eq_iff_index_eq mod_less)
qed

lemma UnicodeEscape_inject:
  assumes "UnicodeEscape c = UnicodeEscape d"
  shows "c = d"
proof -
  have "(of_char c :: nat) < 256" and "(of_char d :: nat) < 256"
    by simp_all
  then have "(of_char c :: nat) div 16 < 16" and "(of_char d :: nat) div 16 < 16"
    by (simp_all add: less_mult_imp_div_less)
  moreover have "(of_char c :: nat) mod 16 < 16" and "(of_char d :: nat) mod 16 < 16"
    by simp_all
  moreover from assms
  have "hex_digit (of_char c div 16) = hex_digit (of_char d div 16)"
    and "hex_digit (of_char c mod 16) = hex_digit (of_char d mod 16)"
    by (simp_all add: UnicodeEscape_def)
  ultimately have "(of_char c :: nat) div 16 = of_char d div 16"
    and "(of_char c :: nat) mod 16 = of_char d mod 16"
    by (blast intro: hex_digit_inject)+
  then have "(of_char c :: nat) = of_char d"
    by (metis div_mult_mod_eq)
  then show ?thesis
    by simp
qed

lemma UnicodeEscape_shape:
  "\<exists>h1 h2. UnicodeEscape c = [CHR 0x5C, CHR ''u'', CHR ''0'', CHR ''0'', h1, h2]"
  by (simp add: UnicodeEscape_def)

lemma UnicodeEscape_append_inject:
  assumes "UnicodeEscape c @ X = UnicodeEscape d @ Y"
  shows "c = d \<and> X = Y"
proof -
  have "length (UnicodeEscape c) = length (UnicodeEscape d)"
    by (simp add: UnicodeEscape_def)
  with assms have "UnicodeEscape c = UnicodeEscape d" and "X = Y"
    by simp_all
  then show ?thesis
    by (simp add: UnicodeEscape_inject)
qed

lemma escape_char_prefix_code:
  assumes "escape_char c @ X = escape_char d @ Y"
  shows "c = d \<and> X = Y"
proof -
  obtain h1 h2 where c: "UnicodeEscape c = [CHR 0x5C, CHR ''u'', CHR ''0'', CHR ''0'', h1, h2]"
    using UnicodeEscape_shape by blast
  obtain g1 g2 where d: "UnicodeEscape d = [CHR 0x5C, CHR ''u'', CHR ''0'', CHR ''0'', g1, g2]"
    using UnicodeEscape_shape by blast
  show ?thesis
  proof (cases "escape_char c = UnicodeEscape c \<and> escape_char d = UnicodeEscape d")
    case True
    with assms show ?thesis
      by (simp add: UnicodeEscape_append_inject)
  next
    case False
    with assms c d show ?thesis
      unfolding escape_char_def by (auto split: if_splits)
  qed
qed

lemma escape_char_no_leading_quote: "escape_char c @ X \<noteq> CHR 0x22 # Y"
  using UnicodeEscape_shape [of c] unfolding escape_char_def by (auto split: if_splits)

lemma escaped_string_delimited:
  "concat (map escape_char s) @ CHR 0x22 # X = concat (map escape_char t) @ CHR 0x22 # Y
   \<Longrightarrow> s = t \<and> X = Y"
proof (induction s arbitrary: t)
  case Nil
  then show ?case
    using escape_char_no_leading_quote [of "hd t" "concat (map escape_char (tl t)) @ CHR 0x22 # Y" X]
    by (cases t) auto
next
  case (Cons c s)
  show ?case
  proof (cases t)
    case Nil
    with Cons.prems show ?thesis
      using escape_char_no_leading_quote [of c "concat (map escape_char s) @ CHR 0x22 # X" Y]
      by auto
  next
    case (Cons d t')
    with Cons.prems
    have "escape_char c @ (concat (map escape_char s) @ CHR 0x22 # X) =
          escape_char d @ (concat (map escape_char t') @ CHR 0x22 # Y)"
      by simp
    then have "c = d"
      and "concat (map escape_char s) @ CHR 0x22 # X = concat (map escape_char t') @ CHR 0x22 # Y"
      by (auto dest: escape_char_prefix_code)
    with Cons.IH [of t'] Cons show ?thesis
      by simp
  qed
qed

lemma QuoteJSONString_append_inject:
  "QuoteJSONString s @ X = QuoteJSONString t @ Y \<Longrightarrow> s = t \<and> X = Y"
  unfolding QuoteJSONString_def by (rule escaped_string_delimited) simp

section \<open>Properties of the transmission\<close>

text \<open>
  Every run of \<^verbatim>\<open>sendToCleanMaster\<close>, whatever the network does: the promise is
  fulfilled, one request has gone out, and at most one line has been logged.
\<close>

lemma sendToCleanMaster_run:
  "sendToCleanMaster net url filename =
     (Inr JUndefined,
      Fetch ''http://localhost:8080'' (relay_init url filename) #
      (case net ''http://localhost:8080'' (relay_init url filename) of
         Resolves response \<Rightarrow>
           if ok response then [] else [ConsoleError [Text message_rejected]]
       | Rejects error \<Rightarrow> [ConsoleError [Text message_unreachable, ErrorObject error]]))"
  by (cases "net ''http://localhost:8080'' (relay_init url filename)")
     (simp_all add: sendToCleanMaster_def try_catch_def bind_def await_fetch_def
        console_error_def return_def)

lemma sendToCleanMaster_transmissions:
  "transmissions (snd (sendToCleanMaster net url filename)) =
     [(''http://localhost:8080'', relay_init url filename)]"
  by (cases "net ''http://localhost:8080'' (relay_init url filename)")
     (simp_all add: sendToCleanMaster_run)

lemma sendToCleanMaster_no_unhandled_rejection:
  "\<not> list_ex is_unhandled_rejection (snd (sendToCleanMaster net url filename))"
  by (cases "net ''http://localhost:8080'' (relay_init url filename)")
     (simp_all add: sendToCleanMaster_run)

lemma sendToCleanMaster_no_suggest_call:
  "\<not> list_ex is_suggest_call (snd (sendToCleanMaster net url filename))"
  by (cases "net ''http://localhost:8080'' (relay_init url filename)")
     (simp_all add: sendToCleanMaster_run)

lemma call_async_sendToCleanMaster:
  "call_async (sendToCleanMaster net url filename) = sendToCleanMaster net url filename"
  by (simp add: sendToCleanMaster_run call_async_def)

lemma json_notification:
  "JSON_stringify (notification (JStr url) (JStr filename)) =
     ''{'' @ QuoteJSONString ''type'' @ '':'' @ QuoteJSONString ''download'' @ '','' @
     QuoteJSONString ''url'' @ '':'' @ QuoteJSONString url @ '','' @
     QuoteJSONString ''filename'' @ '':'' @ QuoteJSONString filename @ ''}''"
  by (simp add: JSON_stringify_def notification_def)

text \<open>
  The body determines the two strings it was made from: what the endpoint receives is
  the given \<^verbatim>\<open>url\<close> and \<^verbatim>\<open>filename\<close> and no others.
\<close>

lemma notification_inject:
  assumes "JSON_stringify (notification (JStr url) (JStr filename)) =
           JSON_stringify (notification (JStr url') (JStr filename'))"
  shows "url = url' \<and> filename = filename'"
proof -
  from assms
  have "QuoteJSONString url @ ('','' @ QuoteJSONString ''filename'' @ '':'' @
          QuoteJSONString filename @ ''}'') =
        QuoteJSONString url' @ ('','' @ QuoteJSONString ''filename'' @ '':'' @
          QuoteJSONString filename' @ ''}'')"
    unfolding json_notification by simp
  then have url: "url = url'"
    and "'','' @ QuoteJSONString ''filename'' @ '':'' @ QuoteJSONString filename @ ''}'' =
         '','' @ QuoteJSONString ''filename'' @ '':'' @ QuoteJSONString filename' @ ''}''"
    by (auto dest: QuoteJSONString_append_inject)
  then have "QuoteJSONString filename @ ''}'' = QuoteJSONString filename' @ ''}''"
    by simp
  then have "filename = filename'"
    by (rule QuoteJSONString_append_inject [THEN conjunct1])
  with url show ?thesis
    by simp
qed

text \<open>
  C3: every transmission is one POST, whatever comes back, to the fixed endpoint
  \<^verbatim>\<open>http://localhost:8080\<close> (host \<^verbatim>\<open>localhost\<close>, port 8080, nothing after the port),
  with the header \<^verbatim>\<open>Content-Type: application/json\<close> and the JSON text of an object
  with the three properties \<^verbatim>\<open>type\<close> (always \<^verbatim>\<open>download\<close>), \<^verbatim>\<open>url\<close> and
  \<^verbatim>\<open>filename\<close> (the two strings given).
\<close>

theorem sendToCleanMaster_single_post:
  "transmissions (snd (sendToCleanMaster net (JStr url) (JStr filename))) =
     [(''http://'' @ ''localhost'' @ '':'' @ ''8080'',
       \<lparr>http_method = ''POST'',
        headers = [(''Content-Type'', ''application/json'')],
        body = ''{'' @ QuoteJSONString ''type'' @ '':'' @ QuoteJSONString ''download'' @
               '','' @ QuoteJSONString ''url'' @ '':'' @ QuoteJSONString url @
               '','' @ QuoteJSONString ''filename'' @ '':'' @ QuoteJSONString filename @
               ''}''\<rparr>)]"
  by (simp add: sendToCleanMaster_transmissions json_notification)

theorem sendToCleanMaster_single_post_witness:
  "transmissions
     (snd (sendToCleanMaster (\<lambda>resource init. Resolves \<lparr>status = 503\<rparr>)
             (JStr ''https://example.com/a.zip'') (JStr ''a.zip''))) =
     [(''http://localhost:8080'',
       \<lparr>http_method = ''POST'',
        headers = [(''Content-Type'', ''application/json'')],
        body = ''{'' @ [CHR 0x22] @ ''type'' @ [CHR 0x22] @ '':'' @
                 [CHR 0x22] @ ''download'' @ [CHR 0x22] @ '','' @
                 [CHR 0x22] @ ''url'' @ [CHR 0x22] @ '':'' @
                 [CHR 0x22] @ ''https://example.com/a.zip'' @ [CHR 0x22] @ '','' @
                 [CHR 0x22] @ ''filename'' @ [CHR 0x22] @ '':'' @
                 [CHR 0x22] @ ''a.zip'' @ [CHR 0x22] @ ''}''\<rparr>)]"
  using sendToCleanMaster_single_post
    [of "\<lambda>resource init. Resolves \<lparr>status = 503\<rparr>" "''https://example.com/a.zip''"
        "''a.zip''"]
  by (simp add: QuoteJSONString_def escape_char_def)

text \<open>
  C4: when the endpoint answers with a status that is not successful, the run is the
  request and one line on \<^verbatim>\<open>console.error\<close>, nothing else: the promise is fulfilled,
  no second request is made, and the listener's unawaited call sees no error.
\<close>

theorem rejected_delivery_is_only_logged:
  assumes "net ''http://localhost:8080'' (relay_init url filename) = Resolves response"
    and "\<not> ok response"
  shows "sendToCleanMaster net url filename =
           (Inr JUndefined,
            [Fetch ''http://localhost:8080'' (relay_init url filename),
             ConsoleError [Text message_rejected]])
       \<and> call_async (sendToCleanMaster net url filename) =
           (Inr JUndefined,
            [Fetch ''http://localhost:8080'' (relay_init url filename),
             ConsoleError [Text message_rejected]])"
  using assms by (simp add: call_async_sendToCleanMaster) (simp add: sendToCleanMaster_run)

theorem rejected_delivery_is_only_logged_witness:
  "\<not> ok \<lparr>status = 500\<rparr>
   \<and> sendToCleanMaster (\<lambda>resource init. Resolves \<lparr>status = 500\<rparr>)
       (JStr ''https://example.com/a.zip'') (JStr ''a.zip'') =
     (Inr JUndefined,
      [Fetch ''http://localhost:8080''
         (relay_init (JStr ''https://example.com/a.zip'') (JStr ''a.zip'')),
       ConsoleError [Text message_rejected]])"
proof -
  have status: "\<not> ok \<lparr>status = 500\<rparr>"
    by (simp add: ok_def)
  show ?thesis
    using status
      rejected_delivery_is_only_logged
        [of "\<lambda>resource init. Resolves \<lparr>status = 500\<rparr>"
            "JStr ''https://example.com/a.zip''" "JStr ''a.zip''" "\<lparr>status = 500\<rparr>",
         OF refl status]
    by simp
qed

section \<open>Properties of the two listeners\<close>

lemma onDeterminingFilename_listener_run:
  "onDeterminingFilename_listener net downloadItem suggest =
     sendToCleanMaster net (JStr (downloadItem_url downloadItem))
       (JStr (downloadItem_filename downloadItem))"
  by (simp add: onDeterminingFilename_listener_def call_async_sendToCleanMaster)
     (simp add: sendToCleanMaster_run bind_def return_def)

lemma onBeforeRequest_listener_run:
  "onBeforeRequest_listener net details =
     (if details_type details = ''xmlhttprequest'' \<or> details_type details = ''main_frame''
      then sendToCleanMaster net (JStr (details_url details))
             (extract_filename (details_url details))
      else (Inr JUndefined, []))"
  by (simp add: onBeforeRequest_listener_def call_async_sendToCleanMaster Let_def)
     (simp add: sendToCleanMaster_run bind_def return_def)

text \<open>
  C5: whatever \<^verbatim>\<open>fetch\<close> does, resolve with any status or reject with any error,
  \<^verbatim>\<open>sendToCleanMaster\<close> completes without throwing. When \<^verbatim>\<open>fetch\<close> rejects, the
  error is caught and logged, and that is all. So neither listener throws, and no
  rejection is left unhandled.
\<close>

theorem transport_failure_is_caught_and_logged:
  "fst (sendToCleanMaster net url filename) = Inr JUndefined
   \<and> (net ''http://localhost:8080'' (relay_init url filename) = Rejects error \<longrightarrow>
        sendToCleanMaster net url filename =
          (Inr JUndefined,
           [Fetch ''http://localhost:8080'' (relay_init url filename),
            ConsoleError [Text message_unreachable, ErrorObject error]]))
   \<and> fst (onBeforeRequest_listener net details) = Inr JUndefined
   \<and> fst (onDeterminingFilename_listener net downloadItem suggest) = Inr JUndefined
   \<and> \<not> list_ex is_unhandled_rejection (snd (onBeforeRequest_listener net details))
   \<and> \<not> list_ex is_unhandled_rejection
         (snd (onDeterminingFilename_listener net downloadItem suggest))"
  by (simp add: onBeforeRequest_listener_run onDeterminingFilename_listener_run
        sendToCleanMaster_no_unhandled_rejection)
     (simp add: sendToCleanMaster_run)

theorem transport_failure_is_caught_and_logged_witness:
  "fst (sendToCleanMaster (\<lambda>resource init. Rejects (JsError ''Failed to fetch''))
          (JStr ''https://example.com/a.zip'') (JStr ''a.zip'')) = Inr JUndefined
   \<and> sendToCleanMaster (\<lambda>resource init. Rejects (JsError ''Failed to fetch''))
       (JStr ''https://example.com/a.zip'') (JStr ''a.zip'') =
     (Inr JUndefined,
      [Fetch ''http://localhost:8080''
         (relay_init (JStr ''https://example.com/a.zip'') (JStr ''a.zip'')),
       ConsoleError [Text message_unreachable, ErrorObject (JsError ''Failed to fetch'')]])"
  using transport_failure_is_caught_and_logged
    [of "\<lambda>resource init. Rejects (JsError ''Failed to fetch'')"
        "JStr ''https://example.com/a.zip''" "JStr ''a.zip''" "JsError ''Failed to fetch''"]
  by simp

text \<open>
  C1: every download-determination event leads to exactly one transmission, and the
  object sent carries the event's own \<^verbatim>\<open>url\<close> and \<^verbatim>\<open>filename\<close>.
\<close>

theorem onDeterminingFilename_relays_event_fields:
  "transmissions (snd (onDeterminingFilename_listener net downloadItem suggest)) =
     [(''http://localhost:8080'',
       \<lparr>http_method = ''POST'',
        headers = [(''Content-Type'', ''application/json'')],
        body = JSON_stringify
                 [(''type'', JStr ''download''),
                  (''url'', JStr (downloadItem_url downloadItem)),
                  (''filename'', JStr (downloadItem_filename downloadItem))]\<rparr>)]"
  by (simp add: onDeterminingFilename_listener_run sendToCleanMaster_transmissions
        notification_def)

theorem onDeterminingFilename_relays_event_fields_witness:
  "transmissions
     (snd (onDeterminingFilename_listener
             (\<lambda>resource init. Rejects (JsError ''Failed to fetch''))
             \<lparr>downloadItem_url = ''https://example.com/files/report.pdf'',
                downloadItem_filename = ''report.pdf''\<rparr>
             host_suggest)) =
     [(''http://localhost:8080'',
       \<lparr>http_method = ''POST'',
        headers = [(''Content-Type'', ''application/json'')],
        body = JSON_stringify
                 [(''type'', JStr ''download''),
                  (''url'', JStr ''https://example.com/files/report.pdf''),
                  (''filename'', JStr ''report.pdf'')]\<rparr>)]"
  using onDeterminingFilename_relays_event_fields
    [of "\<lambda>resource init. Rejects (JsError ''Failed to fetch'')"
        "\<lparr>downloadItem_url = ''https://example.com/files/report.pdf'',
           downloadItem_filename = ''report.pdf''\<rparr>"
        host_suggest]
  by simp

text \<open>
  C2: a request-observation event leads to a transmission exactly when its type is
  \<^verbatim>\<open>xmlhttprequest\<close> or \<^verbatim>\<open>main_frame\<close>; then there is exactly one, and its
  \<^verbatim>\<open>filename\<close> is the last segment of the event's url, in the spec's sense (section
  4.2): the substring after the last \<^verbatim>\<open>/\<close>. An event of any other type has no effect
  at all.
\<close>

theorem onBeforeRequest_relays_allowed_types_only:
  "transmissions (snd (onBeforeRequest_listener net details)) =
     (if details_type details \<in> {''xmlhttprequest'', ''main_frame''}
      then [(''http://localhost:8080'',
             \<lparr>http_method = ''POST'',
              headers = [(''Content-Type'', ''application/json'')],
              body = JSON_stringify
                       [(''type'', JStr ''download''),
                        (''url'', JStr (details_url details)),
                        (''filename'',
                         JStr (substring_after_last_delimiter (details_url details)))]\<rparr>)]
      else [])
   \<and> (details_type details \<notin> {''xmlhttprequest'', ''main_frame''} \<longrightarrow>
        onBeforeRequest_listener net details = (Inr JUndefined, []))"
  by (simp add: onBeforeRequest_listener_run sendToCleanMaster_transmissions
        notification_def extract_filename_is_last_segment)

theorem onBeforeRequest_relays_allowed_types_only_witness:
  "transmissions
     (snd (onBeforeRequest_listener (\<lambda>resource init. Resolves \<lparr>status = 200\<rparr>)
             \<lparr>details_type = ''main_frame'',
                details_url = ''https://example.com/files/report.pdf''\<rparr>)) =
     [(''http://localhost:8080'',
       \<lparr>http_method = ''POST'',
        headers = [(''Content-Type'', ''application/json'')],
        body = JSON_stringify
                 [(''type'', JStr ''download''),
                  (''url'', JStr ''https://example.com/files/report.pdf''),
                  (''filename'', JStr ''report.pdf'')]\<rparr>)]
   \<and> ''image'' \<notin> {''xmlhttprequest'', ''main_frame''}
   \<and> onBeforeRequest_listener (\<lambda>resource init. Resolves \<lparr>status = 200\<rparr>)
       \<lparr>details_type = ''image'', details_url = ''https://example.com/logo.png''\<rparr> =
     (Inr JUndefined, [])"
  using onBeforeRequest_relays_allowed_types_only
    [of "\<lambda>resource init. Resolves \<lparr>status = 200\<rparr>"
        "\<lparr>details_type = ''main_frame'',
           details_url = ''https://example.com/files/report.pdf''\<rparr>"]
    onBeforeRequest_relays_allowed_types_only
    [of "\<lambda>resource init. Resolves \<lparr>status = 200\<rparr>"
        "\<lparr>details_type = ''image'', details_url = ''https://example.com/logo.png''\<rparr>"]
  by (simp add: substring_after_last_delimiter_def)

text \<open>
  C6: neither listener gives the host anything that overrides its defaults. The
  \<^verbatim>\<open>onBeforeRequest\<close> listener returns \<^verbatim>\<open>undefined\<close> for every event, so no blocking
  or redirecting response. The \<^verbatim>\<open>onDeterminingFilename\<close> listener returns
  \<^verbatim>\<open>undefined\<close> too, does not depend on the \<^verbatim>\<open>suggest\<close> callback it is given, and
  never calls it.
\<close>

theorem listeners_never_override_host:
  "fst (onBeforeRequest_listener net details) = Inr JUndefined
   \<and> fst (onDeterminingFilename_listener net downloadItem suggest) = Inr JUndefined
   \<and> onDeterminingFilename_listener net downloadItem suggest =
     onDeterminingFilename_listener net downloadItem host_suggest
   \<and> \<not> list_ex is_suggest_call
         (snd (onDeterminingFilename_listener net downloadItem host_suggest))
   \<and> \<not> list_ex is_suggest_call (snd (onBeforeRequest_listener net details))"
  by (simp add: onBeforeRequest_listener_run onDeterminingFilename_listener_run
        sendToCleanMaster_no_suggest_call)
     (simp add: sendToCleanMaster_run)

theorem listeners_never_override_host_witness:
  "fst (onBeforeRequest_listener (\<lambda>resource init. Resolves \<lparr>status = 200\<rparr>)
          \<lparr>details_type = ''main_frame'',
             details_url = ''https://example.com/files/report.pdf''\<rparr>) = Inr JUndefined
   \<and> fst (onDeterminingFilename_listener (\<lambda>resource init. Resolves \<lparr>status = 200\<rparr>)
          \<lparr>downloadItem_url = ''https://example.com/files/report.pdf'',
             downloadItem_filename = ''report.pdf''\<rparr>
          (\<lambda>name. (Inl (JsError ''unused''), []))) = Inr JUndefined"
  using listeners_never_override_host
    [of "\<lambda>resource init. Resolves \<lparr>status = 200\<rparr>"
        "\<lparr>details_type = ''main_frame'',
           details_url = ''https://example.com/files/report.pdf''\<rparr>"
        "\<lparr>downloadItem_url = ''https://example.com/files/report.pdf'',
           downloadItem_filename = ''report.pdf''\<rparr>"
        "\<lambda>name. (Inl (JsError ''unused''), [])"]
  by blast

end
